theory Spec2Isabelle
  imports Main "HOL-Library.Sublist"
begin

section \<open>Text values\<close>

text \<open>
  A Python \<open>str\<close> is a sequence of Unicode code points. Several rules of the
  package name code points above 255 (the euro sign, the emoji blocks), so a text value is
  modelled as the list of its code points. \<open>ustr\<close> reads an ASCII literal.
\<close>

type_synonym ustr = "nat list"

definition ustr :: "string \<Rightarrow> ustr" where
  "ustr cs = map of_char cs"

text \<open>The exceptions the operations of the package can raise on a column of text.\<close>

datatype error =
    ValueError          \<comment> \<open>\<open>str.split\<close> with an empty separator\<close>
  | UnicodeEncodeError  \<comment> \<open>\<open>str.encode("utf-8")\<close> on a lone surrogate\<close>
  | TemplateError       \<comment> \<open>\<open>re.sub\<close> with a malformed replacement template (\<open>re.error\<close>, or
                            \<open>IndexError\<close> for an unknown group name)\<close>

section \<open>String methods of Python used by the package\<close>

text \<open>
  \<open>x.split(sep)\<close> with an explicit separator: the text is cut at each occurrence of
  \<open>sep\<close>, found from left to right without overlap; an empty separator raises
  \<open>ValueError\<close>. \<open>split_from sep cur s\<close> is the loop, \<open>cur\<close> holding (reversed) the
  characters of the piece being read.
\<close>

function split_from :: "ustr \<Rightarrow> ustr \<Rightarrow> ustr \<Rightarrow> ustr list" where
  "split_from sep cur s =
     (if s = [] then [rev cur]
      else if sep \<noteq> [] \<and> prefix sep s then rev cur # split_from sep [] (drop (length sep) s)
      else split_from sep (hd s # cur) (tl s))"
  by pat_completeness auto
termination
  by (relation "measure (\<lambda>(sep, cur, s). length s)") auto

definition py_split :: "ustr \<Rightarrow> ustr \<Rightarrow> error + ustr list" where
  "py_split sep x = (if sep = [] then Inl ValueError else Inr (split_from sep [] x))"

text \<open>
  \<open>x.replace(old, new)\<close>: every occurrence of the substring \<open>old\<close>, found from left to
  right without overlap, is replaced by \<open>new\<close>. With an empty \<open>old\<close> Python puts
  \<open>new\<close> before every character and at the end.
\<close>

function py_replace :: "ustr \<Rightarrow> ustr \<Rightarrow> ustr \<Rightarrow> ustr" where
  "py_replace old new s =
     (if old = [] then new @ concat (map (\<lambda>c. c # new) s)
      else if s = [] then []
      else if prefix old s then new @ py_replace old new (drop (length old) s)
      else hd s # py_replace old new (tl s))"
  by pat_completeness auto
termination
  by (relation "measure (\<lambda>(old, new, s). length s)") auto

text \<open>\<open>sep.join(xs)\<close>.\<close>

fun py_join :: "ustr \<Rightarrow> ustr list \<Rightarrow> ustr" where
  "py_join sep [] = []"
| "py_join sep [x] = x"
| "py_join sep (x # y # ys) = x @ sep @ py_join sep (y # ys)"

text \<open>
  \<open>Series.apply(f)\<close> calls \<open>f\<close> on each row in order; the first row on which \<open>f\<close>
  raises ends the call with that exception.
\<close>

fun series_apply :: "('a \<Rightarrow> error + 'b) \<Rightarrow> 'a list \<Rightarrow> error + 'b list" where
  "series_apply f [] = Inr []"
| "series_apply f (x # xs) =
     (case f x of
        Inl e \<Rightarrow> Inl e
      | Inr y \<Rightarrow> (case series_apply f xs of Inl e \<Rightarrow> Inl e | Inr ys \<Rightarrow> Inr (y # ys)))"

section \<open>Regular expressions of Python's \<open>re\<close>\<close>

text \<open>
  The rules of the package are regular expressions, handed to \<open>re\<close> through the string
  methods of pandas. They are modelled by their syntax trees and a backtracking matcher
  that explores the alternatives in the order of \<open>re\<close>: the first alternative of
  \<open>|\<close> first, the longest count of a greedy repetition first.

  A character set lists characters, ranges and classes; \<open>Cls p\<close> is a class such as
  \<open>\s\<close>, given by its predicate.
\<close>

datatype citem = Chr nat | Range nat nat | Cls "nat \<Rightarrow> bool"

datatype regex =
    Eps                           \<comment> \<open>the empty pattern\<close>
  | Lit nat                       \<comment> \<open>one literal character\<close>
  | OneOf bool "citem list"       \<comment> \<open>\<open>[...]\<close>; \<open>[^...]\<close> when the flag is set\<close>
  | Seq regex regex
  | Alt regex regex               \<comment> \<open>\<open>a|b\<close>\<close>
  | Rep regex nat "nat option"    \<comment> \<open>greedy \<open>{lo,hi}\<close>; no upper bound when \<open>None\<close>\<close>
  | Group regex                   \<comment> \<open>capturing \<open>(...)\<close>\<close>
  | Behind regex                  \<comment> \<open>\<open>(?<=...)\<close>\<close>
  | NotBehind regex               \<comment> \<open>\<open>(?<!...)\<close>\<close>
  | Bol                           \<comment> \<open>\<open>^\<close>\<close>
  | Eol                           \<comment> \<open>\<open>$\<close>\<close>

text \<open>A sequence of patterns, and the pattern of a literal text.\<close>

definition cat :: "regex list \<Rightarrow> regex" where
  "cat rs = foldr Seq rs Eps"

definition lits :: "ustr \<Rightarrow> regex" where
  "lits cs = foldr (\<lambda>c r. Seq (Lit c) r) cs Eps"

text \<open>
  \<open>\s\<close> on a \<open>str\<close> pattern: the Unicode white space characters
  (\<open>Py_UNICODE_ISSPACE\<close>).
\<close>

definition py_space :: "nat \<Rightarrow> bool" where
  "py_space c \<longleftrightarrow>
     (9 \<le> c \<and> c \<le> 13) \<or> (28 \<le> c \<and> c \<le> 32) \<or> c = 133 \<or> c = 160 \<or> c = 5760
     \<or> (8192 \<le> c \<and> c \<le> 8202) \<or> c = 8232 \<or> c = 8233 \<or> c = 8239 \<or> c = 8287
     \<or> c = 12288"

text \<open>
  \<open>re.IGNORECASE\<close> compares lower-cased characters: a character \<open>c\<close> of the text
  matches the character \<open>x\<close> of the pattern when the lower case of \<open>c\<close> is the lower
  case of \<open>x\<close> or one of its listed equivalents (\<open>i\<close> and dotless i, \<open>s\<close> and long
  s). \<open>py_lower\<close> is the lower-case mapping on the characters whose lower case is an
  ASCII letter (the capitals, capital I with dot U+0130 and the Kelvin sign U+212A) and
  the identity elsewhere: the rules that are used with the flag have ASCII letters only.
\<close>

definition py_lower :: "nat \<Rightarrow> nat" where
  "py_lower c =
     (if 65 \<le> c \<and> c \<le> 90 then c + 32
      else if c = 304 then 105
      else if c = 8490 then 107
      else c)"

definition case_fixes :: "nat \<Rightarrow> nat list" where
  "case_fixes l = (if l = 105 then [305] else if l = 115 then [383] else [])"

definition chr_eq :: "bool \<Rightarrow> nat \<Rightarrow> nat \<Rightarrow> bool" where
  "chr_eq ic x c \<longleftrightarrow>
     (if ic then py_lower c = py_lower x \<or> py_lower c \<in> set (case_fixes (py_lower x))
      else c = x)"

fun item_mem :: "bool \<Rightarrow> citem \<Rightarrow> nat \<Rightarrow> bool" where
  "item_mem ic (Chr x) c = chr_eq ic x c"
| "item_mem ic (Range lo hi) c =
     (if ic then list_ex (\<lambda>x. chr_eq ic x c) [lo..<Suc hi] else lo \<le> c \<and> c \<le> hi)"
| "item_mem ic (Cls p) c = p (if ic then py_lower c else c)"

definition set_mem :: "bool \<Rightarrow> bool \<Rightarrow> citem list \<Rightarrow> nat \<Rightarrow> bool" where
  "set_mem ic neg items c \<longleftrightarrow> (list_ex (\<lambda>i. item_mem ic i c) items \<noteq> neg)"

text \<open>
  A state of the matcher: the text before the position (last character first), the text
  from the position on, and the text of the capturing group when it has taken part. No
  rule of the package has more than one group.
\<close>

type_synonym mstate = "ustr \<times> ustr \<times> ustr option"

definition remaining :: "mstate \<Rightarrow> nat" where
  "remaining st = length (fst (snd st))"

text \<open>
  A greedy repetition of \<open>body\<close>, at least \<open>lo\<close> and at most \<open>hi\<close> times: one more
  round is tried before the rest of the pattern. Once \<open>lo\<close> rounds are done, a round is
  tried only if the round before it has moved the position (\<open>prev\<close> is where that round
  began), which is how \<open>re\<close> ends the repetition of a body that matches the empty text.
  A round never gives text back; the test on \<open>remaining\<close> says so to the termination
  proof.
\<close>

function iter ::
  "(mstate \<Rightarrow> mstate list) \<Rightarrow> nat \<Rightarrow> nat option \<Rightarrow> nat option \<Rightarrow> mstate \<Rightarrow> mstate list"
where
  "iter body lo hi prev st =
     (if 0 < lo then
        concat (map (\<lambda>st'. iter body (lo - 1) (map_option (\<lambda>h. h - 1) hi) prev st') (body st))
      else
        (if hi \<noteq> Some 0 \<and> prev \<noteq> Some (remaining st) then
           concat (map (\<lambda>st'. if remaining st' \<le> remaining st
                               then iter body 0 (map_option (\<lambda>h. h - 1) hi)
                                      (Some (remaining st)) st'
                               else [])
                       (body st))
         else [])
        @ [st])"
  by pat_completeness auto
termination
  by (relation "measures [\<lambda>(body, lo, hi, prev, st). lo,
                          \<lambda>(body, lo, hi, prev, st). remaining st,
                          \<lambda>(body, lo, hi, prev, st). if prev = Some (remaining st) then 0 else 1]")
     auto

text \<open>The number of characters a pattern of fixed width takes (for look-behind).\<close>

fun width :: "regex \<Rightarrow> nat" where
  "width Eps = 0"
| "width (Lit x) = 1"
| "width (OneOf neg items) = 1"
| "width (Seq r1 r2) = width r1 + width r2"
| "width (Alt r1 r2) = min (width r1) (width r2)"
| "width (Rep r lo hi) = lo * width r"
| "width (Group r) = width r"
| "width (Behind r) = 0"
| "width (NotBehind r) = 0"
| "width Bol = 0"
| "width Eol = 0"

text \<open>
  \<open>ms ic r st\<close>: the states in which a match of \<open>r\<close> begun in \<open>st\<close> can end, in the
  order in which \<open>re\<close> tries them; \<open>ic\<close> is \<open>re.IGNORECASE\<close>. A look-behind steps
  back by the width of its pattern and matches it from there; \<open>$\<close> holds at the end of
  the text and before a newline that ends it.
\<close>

fun ms :: "bool \<Rightarrow> regex \<Rightarrow> mstate \<Rightarrow> mstate list" where
  "ms ic Eps st = [st]"
| "ms ic (Lit x) (pre, rest, g) =
     (case rest of [] \<Rightarrow> [] | c # cs \<Rightarrow> if chr_eq ic x c then [(c # pre, cs, g)] else [])"
| "ms ic (OneOf neg items) (pre, rest, g) =
     (case rest of [] \<Rightarrow> []
      | c # cs \<Rightarrow> if set_mem ic neg items c then [(c # pre, cs, g)] else [])"
| "ms ic (Seq r1 r2) st = concat (map (\<lambda>st'. ms ic r2 st') (ms ic r1 st))"
| "ms ic (Alt r1 r2) st = ms ic r1 st @ ms ic r2 st"
| "ms ic (Rep r lo hi) st = iter (\<lambda>st'. ms ic r st') lo hi None st"
| "ms ic (Group r) (pre, rest, g) =
     map (\<lambda>(pre', rest', g'). (pre', rest', Some (rev (take (length pre' - length pre) pre'))))
         (ms ic r (pre, rest, g))"
| "ms ic (Behind r) (pre, rest, g) =
     (if length pre < width r then []
      else if ms ic r (drop (width r) pre, rev (take (width r) pre) @ rest, g) = [] then []
      else [(pre, rest, g)])"
| "ms ic (NotBehind r) (pre, rest, g) =
     (if length pre < width r then [(pre, rest, g)]
      else if ms ic r (drop (width r) pre, rev (take (width r) pre) @ rest, g) = []
      then [(pre, rest, g)]
      else [])"
| "ms ic Bol (pre, rest, g) = (if pre = [] then [(pre, rest, g)] else [])"
| "ms ic Eol (pre, rest, g) = (if rest = [] \<or> rest = [10] then [(pre, rest, g)] else [])"

text \<open>
  The match found at one position: the first end state, read as the number of characters
  taken and the group. After an empty match \<open>re\<close> asks the next match to move
  (\<open>must\<close>), and then the first end state that has moved is taken.
\<close>

definition first_match ::
  "bool \<Rightarrow> regex \<Rightarrow> bool \<Rightarrow> ustr \<Rightarrow> ustr \<Rightarrow> (nat \<times> ustr option) option"
where
  "first_match ic r must pre rest =
     map_option (\<lambda>(pre', rest', g). (length rest - length rest', g))
       (find (\<lambda>(pre', rest', g). \<not> must \<or> length rest' < length rest)
             (ms ic r (pre, rest, None)))"

text \<open>
  The scan shared by \<open>findall\<close>, \<open>sub\<close> and \<open>search\<close>: from left to right, a match
  at the position is recorded and the scan goes on behind it; otherwise the character is
  passed over.
\<close>

datatype piece = Skip nat | Hit ustr "ustr option"

lemma first_match_bounds:
  "first_match ic r must pre rest = Some (n, g) \<Longrightarrow> n \<le> length rest \<and> (must \<longrightarrow> 0 < n)"
  by (auto simp: first_match_def find_Some_iff)

function scan :: "bool \<Rightarrow> regex \<Rightarrow> bool \<Rightarrow> ustr \<Rightarrow> ustr \<Rightarrow> piece list" where
  "scan ic r must pre rest =
     (case first_match ic r must pre rest of
        Some (n, g) \<Rightarrow>
          Hit (take n rest) g # scan ic r (n = 0) (rev (take n rest) @ pre) (drop n rest)
      | None \<Rightarrow>
          (case rest of [] \<Rightarrow> [] | c # cs \<Rightarrow> Skip c # scan ic r False (c # pre) cs))"
  by pat_completeness auto
termination
  by (relation "measures [\<lambda>(ic, r, must, pre, rest). length rest,
                          \<lambda>(ic, r, must, pre, rest). if must then 0 else 1]")
     (auto dest: first_match_bounds)

text \<open>The number of capturing groups of a pattern.\<close>

fun groups :: "regex \<Rightarrow> nat" where
  "groups (Seq r1 r2) = groups r1 + groups r2"
| "groups (Alt r1 r2) = groups r1 + groups r2"
| "groups (Rep r lo hi) = groups r"
| "groups (Group r) = Suc (groups r)"
| "groups (Behind r) = groups r"
| "groups (NotBehind r) = groups r"
| "groups r = 0"

text \<open>
  \<open>re.findall\<close>: the texts of the matches, or the text of the group when the pattern
  has one (empty when the group took no part).
\<close>

fun hit_value :: "regex \<Rightarrow> piece \<Rightarrow> ustr list" where
  "hit_value r (Skip c) = []"
| "hit_value r (Hit w g) =
     (if groups r = 0 then [w] else [case g of None \<Rightarrow> [] | Some x \<Rightarrow> x])"

definition re_findall :: "bool \<Rightarrow> regex \<Rightarrow> ustr \<Rightarrow> ustr list" where
  "re_findall ic r s = concat (map (hit_value r) (scan ic r False [] s))"

text \<open>\<open>re.search(...) is not None\<close>.\<close>

fun is_hit :: "piece \<Rightarrow> bool" where
  "is_hit (Skip c) = False"
| "is_hit (Hit w g) = True"

definition re_search :: "bool \<Rightarrow> regex \<Rightarrow> ustr \<Rightarrow> bool" where
  "re_search ic r s = list_ex is_hit (scan ic r False [] s)"

text \<open>
  The replacement of \<open>re.sub\<close> is a template (\<open>parse_template\<close> of CPython 3.12): a
  backslash starts a group reference (\<open>\g<1>\<close>, \<open>\1\<close>), an octal character code or
  one of the escapes \<open>\a \b \f \n \r \t \v \\\<close>; a backslash before another ASCII
  letter, a backslash that ends the text and a reference to a group the pattern does not
  have are errors; a backslash before any other character stays.
\<close>

datatype titem = TLit nat | TGroup nat

definition is_digit :: "nat \<Rightarrow> bool" where
  "is_digit c \<longleftrightarrow> 48 \<le> c \<and> c \<le> 57"

definition is_oct :: "nat \<Rightarrow> bool" where
  "is_oct c \<longleftrightarrow> 48 \<le> c \<and> c \<le> 55"

definition ascii_letter :: "nat \<Rightarrow> bool" where
  "ascii_letter c \<longleftrightarrow> (65 \<le> c \<and> c \<le> 90) \<or> (97 \<le> c \<and> c \<le> 122)"

definition number :: "nat \<Rightarrow> ustr \<Rightarrow> nat" where
  "number base ds = foldl (\<lambda>a d. base * a + (d - 48)) 0 ds"

definition escape :: "nat \<Rightarrow> nat option" where
  "escape c =
     (if c = 97 then Some 7 else if c = 98 then Some 8 else if c = 102 then Some 12
      else if c = 110 then Some 10 else if c = 114 then Some 13 else if c = 116 then Some 9
      else if c = 118 then Some 11 else if c = 92 then Some 92 else None)"

definition tcons :: "titem list \<Rightarrow> error + titem list \<Rightarrow> error + titem list" where
  "tcons its r = (case r of Inl e \<Rightarrow> Inl e | Inr t \<Rightarrow> Inr (its @ t))"

definition tgroup :: "nat \<Rightarrow> nat \<Rightarrow> error + titem list \<Rightarrow> error + titem list" where
  "tgroup ng k r = (if ng < k then Inl TemplateError else tcons [TGroup k] r)"

lemma length_tl_dropWhile: "length (dropWhile p xs) - Suc 0 \<le> Suc (Suc (length xs))"
  using length_dropWhile_le [of p xs] by simp

function parse_template :: "nat \<Rightarrow> ustr \<Rightarrow> error + titem list" where
  "parse_template ng s =
     (case s of
        [] \<Rightarrow> Inr []
      | c # cs \<Rightarrow>
          if c \<noteq> 92 then tcons [TLit c] (parse_template ng cs)
          else
            (case cs of
               [] \<Rightarrow> Inl TemplateError
             | d # ds \<Rightarrow>
                 if d = 103 then
                   (case ds of
                      [] \<Rightarrow> Inl TemplateError
                    | l # ns \<Rightarrow>
                        if l \<noteq> 60 then Inl TemplateError
                        else if takeWhile (\<lambda>x. x \<noteq> 62) ns = ns then Inl TemplateError
                        else if takeWhile (\<lambda>x. x \<noteq> 62) ns = [] then Inl TemplateError
                        else if \<not> list_all is_digit (takeWhile (\<lambda>x. x \<noteq> 62) ns)
                          then Inl TemplateError
                        else tgroup ng (number 10 (takeWhile (\<lambda>x. x \<noteq> 62) ns))
                               (parse_template ng (tl (dropWhile (\<lambda>x. x \<noteq> 62) ns))))
                 else if d = 48 then
                   tcons [TLit (number 8 (takeWhile is_oct (take 2 ds)))]
                     (parse_template ng (drop (length (takeWhile is_oct (take 2 ds))) ds))
                 else if is_digit d then
                   (case ds of
                      [] \<Rightarrow> tgroup ng (number 10 [d]) (parse_template ng [])
                    | e # es \<Rightarrow>
                        if \<not> is_digit e then tgroup ng (number 10 [d]) (parse_template ng ds)
                        else if is_oct d \<and> is_oct e \<and> es \<noteq> [] \<and> is_oct (hd es) then
                          (if 255 < number 8 [d, e, hd es] then Inl TemplateError
                           else tcons [TLit (number 8 [d, e, hd es])]
                                  (parse_template ng (tl es)))
                        else tgroup ng (number 10 [d, e]) (parse_template ng es))
                 else
                   (case escape d of
                      Some x \<Rightarrow> tcons [TLit x] (parse_template ng ds)
                    | None \<Rightarrow>
                        if ascii_letter d then Inl TemplateError
                        else tcons [TLit 92, TLit d] (parse_template ng ds))))"
  by pat_completeness auto
termination
  by (relation "measure (\<lambda>(ng, s). length s)")
     (auto simp: less_Suc_eq_le length_tl_dropWhile)

fun expand :: "ustr \<Rightarrow> ustr option \<Rightarrow> titem \<Rightarrow> ustr" where
  "expand w g (TLit c) = [c]"
| "expand w g (TGroup k) = (if k = 0 then w else (case g of None \<Rightarrow> [] | Some x \<Rightarrow> x))"

fun put :: "titem list \<Rightarrow> piece \<Rightarrow> ustr" where
  "put t (Skip c) = [c]"
| "put t (Hit w g) = concat (map (expand w g) t)"

text \<open>\<open>re.sub(pattern, repl, string)\<close>.\<close>

definition re_sub :: "bool \<Rightarrow> regex \<Rightarrow> ustr \<Rightarrow> ustr \<Rightarrow> error + ustr" where
  "re_sub ic r repl s =
     (case parse_template (groups r) repl of
        Inl e \<Rightarrow> Inl e
      | Inr t \<Rightarrow> Inr (concat (map (put t) (scan ic r False [] s))))"

section \<open>String methods of pandas used by the package\<close>

text \<open>
  A column is a \<open>Series\<close> of text values, modelled as the list of its rows. Each
  method of \<open>Series.str\<close> works row by row; a row that raises ends the call.
\<close>

definition str_findall :: "regex \<Rightarrow> ustr list \<Rightarrow> ustr list list" where
  "str_findall r col = map (re_findall False r) col"

definition str_contains :: "regex \<Rightarrow> bool \<Rightarrow> ustr list \<Rightarrow> bool list" where
  "str_contains r case_sensitive col = map (re_search (\<not> case_sensitive) r) col"

definition str_replace_regex :: "regex \<Rightarrow> ustr \<Rightarrow> ustr list \<Rightarrow> error + ustr list" where
  "str_replace_regex r repl col = series_apply (re_sub False r repl) col"

definition str_replace_literal :: "ustr \<Rightarrow> ustr \<Rightarrow> ustr list \<Rightarrow> ustr list" where
  "str_replace_literal pat repl col = map (py_replace pat repl) col"

definition str_join :: "ustr \<Rightarrow> ustr list list \<Rightarrow> ustr list" where
  "str_join sep col = map (py_join sep) col"

text \<open>
  \<open>str.encode("utf-8")\<close> gives the bytes of a text and raises on a surrogate;
  \<open>str.decode("ascii", errors="ignore")\<close> keeps the bytes below 128.
\<close>

definition utf8 :: "nat \<Rightarrow> error + nat list" where
  "utf8 c =
     (if c < 128 then Inr [c]
      else if c < 2048 then Inr [192 + c div 64, 128 + c mod 64]
      else if 55296 \<le> c \<and> c \<le> 57343 then Inl UnicodeEncodeError
      else if c < 65536 then Inr [224 + c div 4096, 128 + c div 64 mod 64, 128 + c mod 64]
      else Inr [240 + c div 262144, 128 + c div 4096 mod 64, 128 + c div 64 mod 64,
                128 + c mod 64])"

definition encode_utf8 :: "ustr \<Rightarrow> error + nat list" where
  "encode_utf8 s = (case series_apply utf8 s of Inl e \<Rightarrow> Inl e | Inr bs \<Rightarrow> Inr (concat bs))"

definition str_encode :: "ustr list \<Rightarrow> error + nat list list" where
  "str_encode col = series_apply encode_utf8 col"

definition str_decode :: "nat list list \<Rightarrow> ustr list" where
  "str_decode col = map (filter (\<lambda>b. b < 128)) col"

text \<open>One operation after another, the first exception ending both.\<close>

definition and_then :: "error + 'a \<Rightarrow> ('a \<Rightarrow> error + 'b) \<Rightarrow> error + 'b" where
  "and_then r f = (case r of Inl e \<Rightarrow> Inl e | Inr x \<Rightarrow> f x)"

section \<open>The rules of cleanse.py\<close>

text \<open>
  \<^verbatim>\<open>DOUBLE_QUOTES = r"\\xe2\\x80(\\x9c|\\x9d)"\<close>
  \<^verbatim>\<open>SINGLE_QUOTES = r"\\xe2\\x80(\\x98|\\x99)"\<close>

  In a raw string \<open>\\\<close> is the pattern of one backslash: these rules match the
  twelve characters of the written-out bytes, backslash \<open>x\<close> \<open>e\<close> \<open>2\<close> and so on.
  The backslash is code point 92.
\<close>

definition esc :: "string \<Rightarrow> regex" where
  "esc hex = lits (92 # ustr hex)"

definition DOUBLE_QUOTES :: regex where
  "DOUBLE_QUOTES = cat [esc ''xe2'', esc ''x80'', Group (Alt (esc ''x9c'') (esc ''x9d''))]"

definition SINGLE_QUOTES :: regex where
  "SINGLE_QUOTES = cat [esc ''xe2'', esc ''x80'', Group (Alt (esc ''x98'') (esc ''x99''))]"

text \<open>
  \<^verbatim>\<open>ELIPSES_RULE = r"(\.{2,}|\\xe2\\x80\\xa6|<U+00E2><U+20AC><U+00A6>)"\<close>

  The third alternative is three characters in the source file: a with circumflex
  (U+00E2), the euro sign (U+20AC) and the broken bar (U+00A6).
\<close>

definition ELIPSES_RULE :: regex where
  "ELIPSES_RULE =
     Group (Alt (Rep (Lit 46) 2 None)
           (Alt (cat [esc ''xe2'', esc ''x80'', esc ''xa6''])
                (lits [0xE2, 0x20AC, 0xA6])))"

text \<open>
  \<^verbatim>\<open>URLLINK_RULE = (
    "http[s]?://(?:[a-zA-Z]|[0-9]|[$-_@.&+]|[!*\(\),]|(?:%[0-9a-fA-F][0-9a-fA-F]))+"
)\<close>

  In the third set \<open>$-_\<close> is a range, from code point 36 to 95.
\<close>

definition hexdigit :: regex where
  "hexdigit = OneOf False [Range 48 57, Range 97 102, Range 65 70]"

definition url_unit :: regex where
  "url_unit =
     Alt (OneOf False [Range 97 122, Range 65 90])
    (Alt (OneOf False [Range 48 57])
    (Alt (OneOf False [Range 36 95, Chr 64, Chr 46, Chr 38, Chr 43])
    (Alt (OneOf False [Chr 33, Chr 42, Chr 40, Chr 41, Chr 44])
         (cat [Lit 37, hexdigit, hexdigit]))))"

definition URLLINK_RULE :: regex where
  "URLLINK_RULE =
     cat [lits (ustr ''http''), Rep (OneOf False [Chr 115]) 0 (Some 1), lits (ustr ''://''),
          Rep url_unit 1 None]"

text \<open>The patterns written inside the methods. \<open>whitespace\<close> is \<open>\s\<close>.\<close>

definition whitespace :: regex where
  "whitespace = OneOf False [Cls py_space]"

text \<open>\<^verbatim>\<open>r"(\\n)+"\<close>: one or more times a backslash and the letter n.\<close>

definition NEWLINE_RULE :: regex where
  "NEWLINE_RULE = Rep (Group (lits [92, 110])) 1 None"

text \<open>\<^verbatim>\<open>"(^['\"]|['\"]$)"\<close>\<close>

definition quote_char :: regex where
  "quote_char = OneOf False [Chr 39, Chr 34]"

definition EDGE_QUOTE_RULE :: regex where
  "EDGE_QUOTE_RULE = Group (Alt (Seq Bol quote_char) (Seq quote_char Eol))"

text \<open>\<^verbatim>\<open>"\s+"\<close> and \<^verbatim>\<open>"^\s+|\s+$"\<close>\<close>

definition SPACES_RULE :: regex where
  "SPACES_RULE = Rep whitespace 1 None"

definition EDGE_SPACES_RULE :: regex where
  "EDGE_SPACES_RULE = Alt (Seq Bol (Rep whitespace 1 None)) (Seq (Rep whitespace 1 None) Eol)"

section \<open>CleanseText\<close>

text \<open>
  \<open>fix_text\<close> of the \<open>ftfy\<close> library is not part of the package: the two methods that
  call it take it as the parameter \<open>ftfy\<close>.
\<close>

definition strip_mojibake :: "(ustr \<Rightarrow> ustr) \<Rightarrow> ustr list \<Rightarrow> ustr list" where
  "strip_mojibake ftfy col = map ftfy col"

definition fix_text :: "(ustr \<Rightarrow> ustr) \<Rightarrow> ustr list \<Rightarrow> ustr list" where
  "fix_text ftfy col = strip_mojibake ftfy col"

definition get_hyperlinks :: "ustr list \<Rightarrow> ustr list list" where
  "get_hyperlinks col = str_findall URLLINK_RULE col"

definition strip_elipses :: "ustr \<Rightarrow> ustr list \<Rightarrow> error + ustr list" where
  "strip_elipses token col = str_replace_regex ELIPSES_RULE token col"

definition strip_encoding :: "ustr list \<Rightarrow> error + ustr list" where
  "strip_encoding col = and_then (str_encode col) (\<lambda>bs. Inr (str_decode bs))"

definition strip_hyperlink :: "ustr \<Rightarrow> ustr list \<Rightarrow> error + ustr list" where
  "strip_hyperlink token col = str_replace_regex URLLINK_RULE token col"

definition strip_newline :: "ustr list \<Rightarrow> error + ustr list" where
  "strip_newline col = str_replace_regex NEWLINE_RULE (ustr '' '') col"

definition strip_punctuation :: "ustr list \<Rightarrow> ustr list" where
  "strip_punctuation col = (let punctuation = ustr ''+_:!,.'' in
     str_replace_literal punctuation [] col)"

definition strip_quotes :: "ustr list \<Rightarrow> error + ustr list" where
  "strip_quotes col =
     and_then (and_then (str_replace_regex DOUBLE_QUOTES [34] col)
                        (str_replace_regex SINGLE_QUOTES [39]))
              (str_replace_regex EDGE_QUOTE_RULE [])"

definition strip_whitespace :: "ustr \<Rightarrow> ustr list \<Rightarrow> error + ustr list" where
  "strip_whitespace token col =
     and_then (str_replace_regex SPACES_RULE token col)
              (str_replace_regex EDGE_SPACES_RULE [])"

section \<open>The rules of tweet.py\<close>

text \<open>
  \<^verbatim>\<open>HANDLE_RULE = "@([a-zA-Z0-9_]{2,15})"\<close>
  \<^verbatim>\<open>MENTION_RULE = f"(?<!RT\s){HANDLE_RULE}"\<close>
  \<^verbatim>\<open>RETWEET_RULE = f"(?<=RT\s)?RT\s{HANDLE_RULE}:"\<close>
  \<^verbatim>\<open>HASHTAG_RULE = "#([a-zA-Z0-9_]{1,})"\<close>
\<close>

definition word_char :: regex where
  "word_char = OneOf False [Range 97 122, Range 65 90, Range 48 57, Chr 95]"

definition HANDLE_RULE :: regex where
  "HANDLE_RULE = cat [Lit 64, Group (Rep word_char 2 (Some 15))]"

definition RT_space :: regex where
  "RT_space = cat [Lit 82, Lit 84, whitespace]"

definition MENTION_RULE :: regex where
  "MENTION_RULE = Seq (NotBehind RT_space) HANDLE_RULE"

definition RETWEET_RULE :: regex where
  "RETWEET_RULE = cat [Rep (Behind RT_space) 0 (Some 1), RT_space, HANDLE_RULE, Lit 58]"

definition HASHTAG_RULE :: regex where
  "HASHTAG_RULE = cat [Lit 35, Group (Rep word_char 1 None)]"

text \<open>
  \<^verbatim>\<open>EMOJI_EMOJI_ALL = r"[^\w\s,. ]"\<close>
  \<^verbatim>\<open>EMOJI_EMOJI_SET = f"[{EMOJI_EMOTICONS}{EMOJI_PICTOGRAM}{EMOJI_TRANS_MAP}{EMOJI_FLAGS_IOS}]"\<close>

  \<open>\w\<close> is an underscore or an alphanumeric character of Unicode; the table of those
  is the parameter \<open>isalnum\<close>.
\<close>

definition EMOJI_EMOTICONS :: citem where "EMOJI_EMOTICONS = Range 0x1F600 0x1F64F"
definition EMOJI_PICTOGRAM :: citem where "EMOJI_PICTOGRAM = Range 0x1F300 0x1F5FF"
definition EMOJI_TRANS_MAP :: citem where "EMOJI_TRANS_MAP = Range 0x1F680 0x1F6FF"
definition EMOJI_FLAGS_IOS :: citem where "EMOJI_FLAGS_IOS = Range 0x1F1E0 0x1F1FF"

definition EMOJI_EMOJI_ALL :: "(nat \<Rightarrow> bool) \<Rightarrow> regex" where
  "EMOJI_EMOJI_ALL isalnum =
     OneOf True [Cls (\<lambda>c. isalnum c \<or> c = 95), Cls py_space, Chr 44, Chr 46, Chr 32]"

definition EMOJI_EMOJI_SET :: regex where
  "EMOJI_EMOJI_SET =
     OneOf False [EMOJI_EMOTICONS, EMOJI_PICTOGRAM, EMOJI_TRANS_MAP, EMOJI_FLAGS_IOS]"

section \<open>TweetParser\<close>

text \<open>
  The rows of a result are texts, lists of matches, counts, flags or, for
  \<open>get_emojis(counts=True)\<close>, a \<open>Counter\<close>: the matches with their numbers of
  occurrences, in the order of first occurrence.
\<close>

datatype cell =
    Text ustr
  | Matches "ustr list"
  | Count nat
  | Flag bool
  | Tally "(ustr \<times> nat) list"

fun tally_add :: "ustr \<Rightarrow> (ustr \<times> nat) list \<Rightarrow> (ustr \<times> nat) list" where
  "tally_add x [] = [(x, 1)]"
| "tally_add x ((y, n) # m) = (if x = y then (y, Suc n) # m else (y, n) # tally_add x m)"

definition Counter :: "ustr list \<Rightarrow> (ustr \<times> nat) list" where
  "Counter xs = foldl (\<lambda>m x. tally_add x m) [] xs"

text \<open>
  \<^verbatim>\<open>return self._obj.apply(lambda x: len(x.split(sep) if x != "" else ""))\<close>
\<close>

definition count_elements_row :: "ustr \<Rightarrow> ustr \<Rightarrow> error + nat" where
  "count_elements_row sep x =
     (if x \<noteq> [] then (case py_split sep x of Inl e \<Rightarrow> Inl e | Inr ps \<Rightarrow> Inr (length ps))
      else Inr (length ([] :: ustr)))"

definition count_elements :: "ustr \<Rightarrow> ustr list \<Rightarrow> error + nat list" where
  "count_elements sep col = series_apply (count_elements_row sep) col"

definition get_emojis :: "(nat \<Rightarrow> bool) \<Rightarrow> bool \<Rightarrow> bool \<Rightarrow> ustr list \<Rightarrow> cell list" where
  "get_emojis isalnum counts all_emojis col =
     (let emoji_rule = (if all_emojis then EMOJI_EMOJI_ALL isalnum else EMOJI_EMOJI_SET);
          emojis = str_findall emoji_rule col
      in if counts then map (\<lambda>x. Tally (Counter x)) emojis else map Matches emojis)"

definition get_hashtags :: "ustr \<Rightarrow> ustr list \<Rightarrow> cell list" where
  "get_hashtags sep col =
     (let hashtags = str_findall HASHTAG_RULE col
      in if sep = [] then map Matches hashtags else map Text (str_join sep hashtags))"

definition get_mentions :: "ustr \<Rightarrow> ustr list \<Rightarrow> cell list" where
  "get_mentions sep col =
     (let mentions = str_findall MENTION_RULE col
      in if sep = [] then map Matches mentions else map Text (str_join sep mentions))"

definition get_retweets :: "ustr list \<Rightarrow> ustr list list" where
  "get_retweets col = str_findall RETWEET_RULE col"

definition has_hashtags :: "bool \<Rightarrow> ustr list \<Rightarrow> bool list" where
  "has_hashtags case_sensitive col = str_contains HASHTAG_RULE case_sensitive col"

definition has_mentions :: "bool \<Rightarrow> ustr list \<Rightarrow> bool list" where
  "has_mentions case_sensitive col = str_contains MENTION_RULE case_sensitive col"

definition has_retweets :: "bool \<Rightarrow> ustr list \<Rightarrow> bool list" where
  "has_retweets case_sensitive col = str_contains RETWEET_RULE case_sensitive col"

definition strip_hashtags :: "ustr \<Rightarrow> ustr list \<Rightarrow> error + ustr list" where
  "strip_hashtags token col = str_replace_regex HASHTAG_RULE token col"

definition strip_mentions :: "ustr \<Rightarrow> ustr list \<Rightarrow> error + ustr list" where
  "strip_mentions token col = str_replace_regex MENTION_RULE token col"

definition strip_retweets :: "ustr \<Rightarrow> ustr list \<Rightarrow> error + ustr list" where
  "strip_retweets token col = str_replace_regex RETWEET_RULE token col"

section \<open>The operations of the accessor\<close>

text \<open>
  The operations a caller reaches through \<open>Series.tweet\<close>, the methods of
  \<open>CleanseText\<close> and of \<open>TweetParser\<close>, each with its arguments. \<open>run\<close> calls
  one on a column and gives the rows of its result as cells.
\<close>

datatype operation =
    Fix_text
  | Get_hyperlinks
  | Strip_elipses ustr
  | Strip_encoding
  | Strip_hyperlink ustr
  | Strip_mojibake
  | Strip_newline
  | Strip_punctuation
  | Strip_quotes
  | Strip_whitespace ustr
  | Count_elements ustr
  | Get_emojis bool bool
  | Get_hashtags ustr
  | Get_mentions ustr
  | Get_retweets
  | Has_hashtags bool
  | Has_mentions bool
  | Has_retweets bool
  | Strip_hashtags ustr
  | Strip_mentions ustr
  | Strip_retweets ustr

definition cells :: "('a \<Rightarrow> cell) \<Rightarrow> error + 'a list \<Rightarrow> error + cell list" where
  "cells f r = and_then r (\<lambda>xs. Inr (map f xs))"

fun run :: "(ustr \<Rightarrow> ustr) \<Rightarrow> (nat \<Rightarrow> bool) \<Rightarrow> operation \<Rightarrow> ustr list \<Rightarrow> error + cell list"
where
  "run ftfy isalnum Fix_text col = Inr (map Text (fix_text ftfy col))"
| "run ftfy isalnum Get_hyperlinks col = Inr (map Matches (get_hyperlinks col))"
| "run ftfy isalnum (Strip_elipses token) col = cells Text (strip_elipses token col)"
| "run ftfy isalnum Strip_encoding col = cells Text (strip_encoding col)"
| "run ftfy isalnum (Strip_hyperlink token) col = cells Text (strip_hyperlink token col)"
| "run ftfy isalnum Strip_mojibake col = Inr (map Text (strip_mojibake ftfy col))"
| "run ftfy isalnum Strip_newline col = cells Text (strip_newline col)"
| "run ftfy isalnum Strip_punctuation col = Inr (map Text (strip_punctuation col))"
| "run ftfy isalnum Strip_quotes col = cells Text (strip_quotes col)"
| "run ftfy isalnum (Strip_whitespace token) col = cells Text (strip_whitespace token col)"
| "run ftfy isalnum (Count_elements sep) col = cells Count (count_elements sep col)"
| "run ftfy isalnum (Get_emojis counts all_emojis) col =
     Inr (get_emojis isalnum counts all_emojis col)"
| "run ftfy isalnum (Get_hashtags sep) col = Inr (get_hashtags sep col)"
| "run ftfy isalnum (Get_mentions sep) col = Inr (get_mentions sep col)"
| "run ftfy isalnum Get_retweets col = Inr (map Matches (get_retweets col))"
| "run ftfy isalnum (Has_hashtags case_sensitive) col =
     Inr (map Flag (has_hashtags case_sensitive col))"
| "run ftfy isalnum (Has_mentions case_sensitive) col =
     Inr (map Flag (has_mentions case_sensitive col))"
| "run ftfy isalnum (Has_retweets case_sensitive) col =
     Inr (map Flag (has_retweets case_sensitive col))"
| "run ftfy isalnum (Strip_hashtags token) col = cells Text (strip_hashtags token col)"
| "run ftfy isalnum (Strip_mentions token) col = cells Text (strip_mentions token col)"
| "run ftfy isalnum (Strip_retweets token) col = cells Text (strip_retweets token col)"

section \<open>Counting delimited elements\<close>

text \<open>
  C3: with the default separator \<open>";"\<close>, \<open>count_elements\<close> returns 3 for the row
  \<open>"a;b;c"\<close> and 0 for the empty row.
\<close>

theorem count_elements_examples:
  "count_elements (ustr '';'') [ustr ''a;b;c''] = Inr [3]
   \<and> count_elements (ustr '';'') [[]] = Inr [0]"
  by code_simp

end
